theory Spec2Isabelle
  imports Complex_Main
begin

section \<open>Floating-point values\<close>

text \<open>
  The program computes with numpy \<open>float64\<close> values. They are modelled as exact real
  numbers extended with the two infinities and NaN: a finite result is the exact real result
  (rounding and overflow are not modelled, and there is one zero, treated as positive where a
  sign is needed), and the exceptional cases follow numpy, which warns and continues:
  a division by zero gives an infinity or NaN, the square root of a negative number gives NaN,
  and NaN propagates through every operation and makes every comparison false.
\<close>

datatype fl = Fin real | PInf | NInf | NaN

fun fadd :: "fl \<Rightarrow> fl \<Rightarrow> fl" where
  "fadd (Fin a) (Fin b) = Fin (a + b)"
| "fadd NaN _ = NaN"
| "fadd _ NaN = NaN"
| "fadd PInf NInf = NaN"
| "fadd NInf PInf = NaN"
| "fadd PInf _ = PInf"
| "fadd _ PInf = PInf"
| "fadd NInf _ = NInf"
| "fadd _ NInf = NInf"

fun fneg :: "fl \<Rightarrow> fl" where
  "fneg (Fin a) = Fin (- a)"
| "fneg PInf = NInf"
| "fneg NInf = PInf"
| "fneg NaN = NaN"

definition fsub :: "fl \<Rightarrow> fl \<Rightarrow> fl" where
  "fsub a b = fadd a (fneg b)"

text \<open>The sign of an infinite product or quotient: \<open>sgn_inf True\<close> is positive.\<close>

definition sgn_inf :: "bool \<Rightarrow> fl" where
  "sgn_inf pos = (if pos then PInf else NInf)"

fun fmul :: "fl \<Rightarrow> fl \<Rightarrow> fl" where
  "fmul (Fin a) (Fin b) = Fin (a * b)"
| "fmul NaN _ = NaN"
| "fmul _ NaN = NaN"
| "fmul (Fin a) PInf = (if a = 0 then NaN else sgn_inf (0 < a))"
| "fmul (Fin a) NInf = (if a = 0 then NaN else sgn_inf (a < 0))"
| "fmul PInf (Fin b) = (if b = 0 then NaN else sgn_inf (0 < b))"
| "fmul NInf (Fin b) = (if b = 0 then NaN else sgn_inf (b < 0))"
| "fmul PInf PInf = PInf"
| "fmul NInf NInf = PInf"
| "fmul PInf NInf = NInf"
| "fmul NInf PInf = NInf"

fun fdiv :: "fl \<Rightarrow> fl \<Rightarrow> fl" where
  "fdiv (Fin a) (Fin b) =
     (if b = 0 then (if a = 0 then NaN else sgn_inf (0 < a)) else Fin (a / b))"
| "fdiv NaN _ = NaN"
| "fdiv _ NaN = NaN"
| "fdiv (Fin a) PInf = Fin 0"
| "fdiv (Fin a) NInf = Fin 0"
| "fdiv PInf (Fin b) = sgn_inf (0 \<le> b)"
| "fdiv NInf (Fin b) = sgn_inf (b < 0)"
| "fdiv PInf PInf = NaN"
| "fdiv PInf NInf = NaN"
| "fdiv NInf PInf = NaN"
| "fdiv NInf NInf = NaN"

fun fsqrt :: "fl \<Rightarrow> fl" where
  "fsqrt (Fin a) = (if a < 0 then NaN else Fin (sqrt a))"
| "fsqrt PInf = PInf"
| "fsqrt NInf = NaN"
| "fsqrt NaN = NaN"

fun fabs :: "fl \<Rightarrow> fl" where
  "fabs (Fin a) = Fin \<bar>a\<bar>"
| "fabs PInf = PInf"
| "fabs NInf = PInf"
| "fabs NaN = NaN"

fun flt :: "fl \<Rightarrow> fl \<Rightarrow> bool" where
  "flt (Fin a) (Fin b) = (a < b)"
| "flt NaN _ = False"
| "flt _ NaN = False"
| "flt _ NInf = False"
| "flt PInf _ = False"
| "flt NInf _ = True"
| "flt _ PInf = True"

definition fgt :: "fl \<Rightarrow> fl \<Rightarrow> bool" where
  "fgt a b = flt b a"

text \<open>\<open>x**2\<close> on a float array is the elementwise product of \<open>x\<close> with itself.\<close>

definition fsquare :: "fl \<Rightarrow> fl" where
  "fsquare x = fmul x x"

section \<open>One-dimensional arrays\<close>

text \<open>
  A one-dimensional array is the list of its elements. \<open>X - Y\<close> broadcasts: arrays of the
  same length are subtracted elementwise, an array of length one is stretched to the length
  of the other, and any other pair of lengths raises numpy's \<open>ValueError\<close>.
  \<open>NotEnoughPoints N\<close> stands for the early return of \<open>rmse\<close>, which prints
  "Not enough points. N datapoints given. At least 9 is required" and returns no value;
  \<open>TypeError\<close> is what unpacking that missing value into three names raises.
\<close>

datatype error = NotEnoughPoints nat | ValueError | TypeError

definition arr_sub :: "fl list \<Rightarrow> fl list \<Rightarrow> error + fl list" where
  "arr_sub X Y =
     (if length X = length Y then Inr (map2 fsub X Y)
      else if length Y = 1 then Inr (map (\<lambda>x. fsub x (hd Y)) X)
      else if length X = 1 then Inr (map (\<lambda>y. fsub (hd X) y) Y)
      else Inl ValueError)"

definition arr_sum :: "fl list \<Rightarrow> fl" where
  "arr_sum X = foldr fadd X (Fin 0)"

text \<open>\<open>X.mean()\<close>: the sum divided by the number of elements (NaN for the empty array).\<close>

definition arr_mean :: "fl list \<Rightarrow> fl" where
  "arr_mean X = fdiv (arr_sum X) (Fin (real (length X)))"

section \<open>The error measures\<close>

text \<open>
  The factor \<open>1.96*sqrt(2)/sqrt(N-1)\<close> that \<open>rmse\<close> and \<open>mae\<close> both write out;
  \<open>N - 1\<close> is computed on Python integers, so it is \<open>-1\<close> for the empty array.
\<close>

definition kfac :: "nat \<Rightarrow> fl" where
  "kfac N = fdiv (fmul (Fin 1.96) (fsqrt (Fin 2))) (fsqrt (Fin (of_int (int N - 1))))"

definition rmse :: "fl list \<Rightarrow> fl list \<Rightarrow> error + (fl \<times> fl \<times> fl)" where
  "rmse X Y =
     (let N = length X in
      if N < 9 then Inl (NotEnoughPoints N)
      else
        (case arr_sub X Y of
           Inl e \<Rightarrow> Inl e
         | Inr diff \<Rightarrow>
             let diff = map fsquare diff;
                 rmse = fsqrt (arr_mean diff);
                 le = fmul rmse (fsub (Fin 1) (fsqrt (fsub (Fin 1) (kfac N))));
                 ue = fmul rmse (fsub (fsqrt (fadd (Fin 1) (kfac N))) (Fin 1))
             in Inr (rmse, le, ue)))"

definition mae :: "fl list \<Rightarrow> fl list \<Rightarrow> error + (fl \<times> fl \<times> fl)" where
  "mae X Y =
     (let N = length X in
      case arr_sub X Y of
        Inl e \<Rightarrow> Inl e
      | Inr diff \<Rightarrow>
          let mae = map fabs diff;
              mae = arr_mean mae;
              le = fmul mae (fsub (Fin 1) (fsqrt (fsub (Fin 1) (kfac N))));
              ue = fmul mae (fsub (fsqrt (fadd (Fin 1) (kfac N))) (Fin 1))
          in Inr (mae, le, ue))"

definition stdevp :: "fl list \<Rightarrow> fl \<Rightarrow> nat \<Rightarrow> fl" where
  "stdevp X X_hat N =
     fsqrt (fdiv (arr_sum (map (\<lambda>x. fsquare (fsub x X_hat)) X)) (Fin (real N)))"

definition me :: "fl list \<Rightarrow> fl list \<Rightarrow> error + (fl \<times> fl)" where
  "me X Y =
     (let N = length X in
      case arr_sub X Y of
        Inl e \<Rightarrow> Inl e
      | Inr error \<Rightarrow>
          let me = arr_mean error;
              s_N = stdevp error me N;
              e = fdiv (fmul (Fin 1.96) s_N) (fsqrt (Fin (real N)))
          in Inr (me, e))"

section \<open>The comparison driver\<close>

text \<open>
  The script part of the module reads a table (a reference column \<open>REF\<close> and one column
  per method), appends the null method, computes the three measures of every method against
  the reference and prints one line per pair of methods. Reading the file and plotting are
  not modelled: the driver takes the reference column and the named method columns, and
  returns the printed lines as records, one field per printed column
  (\<open>Method_A Method_B RMSE_A RMSE_B RMSE_A-RMSE_B Comp Err same?\<close>). The last column
  prints the variable \<open>significance\<close>, the truth value of
  \<open>abs(rmse_i - rmse_j) < comp_error\<close>.
\<close>

record row =
  method_a :: string
  method_b :: string
  rmse_a :: fl
  rmse_b :: fl
  rmse_a_minus_b :: fl
  comp_err :: fl
  same :: bool

text \<open>The nine lists the first loop fills, one entry per method.\<close>

record metric_lists =
  rmse_list :: "fl list"
  lower_error :: "fl list"
  upper_error :: "fl list"
  mae_list :: "fl list"
  mae_lower :: "fl list"
  mae_upper :: "fl list"
  me_list :: "fl list"
  me_lower :: "fl list"
  me_upper :: "fl list"

definition no_metrics :: metric_lists where
  "no_metrics = \<lparr>rmse_list = [], lower_error = [], upper_error = [],
                  mae_list = [], mae_lower = [], mae_upper = [],
                  me_list = [], me_lower = [], me_upper = []\<rparr>"

text \<open>
  One round of the first loop. When \<open>rmse\<close> has returned no value, unpacking it into
  \<open>mrmse, mle, mue\<close> raises \<open>TypeError\<close>; an exception of a measure ends the run.
\<close>

definition metrics_step :: "fl list \<Rightarrow> metric_lists \<Rightarrow> fl list \<Rightarrow> error + metric_lists" where
  "metrics_step ref acc mdata =
     (case rmse mdata ref of
        Inl (NotEnoughPoints n) \<Rightarrow> Inl TypeError
      | Inl e \<Rightarrow> Inl e
      | Inr (mrmse, mle, mue) \<Rightarrow>
          (case mae mdata ref of
             Inl e \<Rightarrow> Inl e
           | Inr (mmae, maele, maeue) \<Rightarrow>
               (case me mdata ref of
                  Inl e \<Rightarrow> Inl e
                | Inr (mme, mmee) \<Rightarrow>
                    Inr \<lparr>rmse_list = rmse_list acc @ [mrmse],
                         lower_error = lower_error acc @ [mle],
                         upper_error = upper_error acc @ [mue],
                         mae_list = mae_list acc @ [mmae],
                         mae_lower = mae_lower acc @ [maele],
                         mae_upper = mae_upper acc @ [maeue],
                         me_list = me_list acc @ [mme],
                         me_lower = me_lower acc @ [mmee],
                         me_upper = me_upper acc @ [mmee]\<rparr>)))"

fun metrics_loop :: "fl list \<Rightarrow> metric_lists \<Rightarrow> fl list list \<Rightarrow> error + metric_lists" where
  "metrics_loop ref acc [] = Inr acc"
| "metrics_loop ref acc (mdata # rest) =
     (case metrics_step ref acc mdata of
        Inl e \<Rightarrow> Inl e
      | Inr acc' \<Rightarrow> metrics_loop ref acc' rest)"

text \<open>
  The body of the pairwise loop. \<open>np.corrcoef(x, y)[0][1]\<close> belongs to numpy, not to this
  module: the driver takes it as the parameter \<open>corrcoef\<close>.
\<close>

definition pair_row ::
  "(fl list \<Rightarrow> fl list \<Rightarrow> fl) \<Rightarrow> string list \<Rightarrow> fl list list \<Rightarrow> metric_lists
     \<Rightarrow> nat \<Rightarrow> nat \<Rightarrow> row" where
  "pair_row corrcoef methods method_data acc i j =
     (let m_i = methods ! i;
          m_j = methods ! j;
          rmse_i = rmse_list acc ! i;
          rmse_j = rmse_list acc ! j;
          r_ij = corrcoef (method_data ! i) (method_data ! j);
          lower = (if fgt rmse_i rmse_j then lower_error acc ! i else lower_error acc ! j);
          upper = (if fgt rmse_i rmse_j then upper_error acc ! j else upper_error acc ! i);
          comp_error = fsqrt (fsub (fadd (fsquare upper) (fsquare lower))
                                   (fmul (fmul (fmul (Fin 2) r_ij) upper) lower));
          significance = flt (fabs (fsub rmse_i rmse_j)) comp_error
      in \<lparr>method_a = m_i, method_b = m_j, rmse_a = rmse_i, rmse_b = rmse_j,
          rmse_a_minus_b = fsub rmse_i rmse_j, comp_err = comp_error,
          same = significance\<rparr>)"

text \<open>\<open>for i in xrange(nm): for j in xrange(i+1, nm)\<close>, one printed line per round.\<close>

definition pair_loop ::
  "(fl list \<Rightarrow> fl list \<Rightarrow> fl) \<Rightarrow> string list \<Rightarrow> fl list list \<Rightarrow> metric_lists
     \<Rightarrow> nat \<Rightarrow> row list" where
  "pair_loop corrcoef methods method_data acc nm =
     concat (map (\<lambda>i. map (\<lambda>j. pair_row corrcoef methods method_data acc i j) [i + 1..<nm])
                 [0..<nm])"

definition main ::
  "(fl list \<Rightarrow> fl list \<Rightarrow> fl) \<Rightarrow> fl list \<Rightarrow> (string \<times> fl list) list \<Rightarrow> error + row list" where
  "main corrcoef ref cols =
     (let methods = map fst cols;
          method_data = map snd cols;
          nm = length methods;
          median = arr_mean ref;
          null = map (\<lambda>_. median) ref;
          methods = methods @ [''null''];
          method_data = method_data @ [null];
          nm = nm + 1
      in case metrics_loop ref no_metrics method_data of
           Inl e \<Rightarrow> Inl e
         | Inr acc \<Rightarrow> Inr (pair_loop corrcoef methods method_data acc nm))"

text \<open>
  A correlation coefficient to run the driver with: the Pearson coefficient as numpy's
  documentation gives it, \<open>R_ij = C_ij / sqrt(C_ii * C_jj)\<close> for the covariance \<open>C\<close>
  normalised by \<open>N - 1\<close>, in the arithmetic above. It is NaN for a single point and for a
  constant series.
\<close>

definition covar :: "fl list \<Rightarrow> fl list \<Rightarrow> fl" where
  "covar X Y =
     (let mx = arr_mean X; my = arr_mean Y
      in fdiv (arr_sum (map2 (\<lambda>x y. fmul (fsub x mx) (fsub y my)) X Y))
              (Fin (real (length X) - 1)))"

definition pearson :: "fl list \<Rightarrow> fl list \<Rightarrow> fl" where
  "pearson X Y = fdiv (covar X Y) (fsqrt (fmul (covar X X) (covar Y Y)))"

section \<open>The end-to-end scenarios\<close>

text \<open>
  The data of the two end-to-end scenarios: the reference series of ten points, and a
  candidate that is the reference plus a constant.
\<close>

definition scenario_ref :: "real list" where
  "scenario_ref = [1, 2, 3, 4, 5, 6, 7, 8, 9, 10]"

definition shifted :: "real \<Rightarrow> real list \<Rightarrow> real list" where
  "shifted c xs = map (\<lambda>x. x + c) xs"

section \<open>Arithmetic of the finite case\<close>

lemma arr_sub_Fin:
  "length xs = length ys \<Longrightarrow>
   arr_sub (map Fin xs) (map Fin ys) = Inr (map Fin (map2 (-) xs ys))"
  by (simp add: arr_sub_def fsub_def zip_map_map o_def split_def)

lemma arr_sum_Fin: "arr_sum (map Fin rs) = Fin (sum_list rs)"
  by (induction rs) (simp_all add: arr_sum_def)

lemma arr_mean_Fin:
  "rs \<noteq> [] \<Longrightarrow> arr_mean (map Fin rs) = Fin (sum_list rs / real (length rs))"
  by (simp add: arr_mean_def arr_sum_Fin)

lemma kfac_Fin:
  "2 \<le> N \<Longrightarrow> kfac N = Fin (1.96 * sqrt 2 / sqrt (real N - 1))"
  by (simp add: kfac_def)

lemma kfac_small:
  assumes "9 \<le> N"
  shows "1.96 * sqrt 2 / sqrt (real N - 1) \<le> 0.98"
proof -
  have "sqrt 8 \<le> sqrt (real N - 1)" using assms by simp
  moreover have "sqrt 8 = 2 * sqrt 2"
    using real_sqrt_mult [of 4 2] by simp
  ultimately have le: "2 * sqrt 2 \<le> sqrt (real N - 1)" by simp
  have pos: "0 < sqrt (real N - 1)" using assms by simp
  have "1.96 * sqrt 2 \<le> 0.98 * sqrt (real N - 1)" using le by simp
  then show ?thesis using pos by (simp only: pos_divide_le_eq)
qed

lemma kfac_pos: "2 \<le> N \<Longrightarrow> 0 < 1.96 * sqrt 2 / sqrt (real N - 1)"
  by simp

lemma sqrt7_less: "sqrt 7 < 1.96 * sqrt 2"
proof (rule real_less_lsqrt)
  show "0 \<le> 1.96 * sqrt 2" by simp
  show "7 < (1.96 * sqrt 2)\<^sup>2" by (simp add: power_mult_distrib power2_eq_square)
qed

lemma kfac_large:
  assumes "2 \<le> N" "N \<le> 8"
  shows "1 < 1.96 * sqrt 2 / sqrt (real N - 1)"
proof -
  have "sqrt (real N - 1) \<le> sqrt 7" using assms by simp
  then have lt: "sqrt (real N - 1) < 1.96 * sqrt 2" using sqrt7_less by linarith
  have pos: "0 < sqrt (real N - 1)" using assms by simp
  show ?thesis using lt pos by (simp only: pos_less_divide_eq mult_1)
qed

lemma map_fsquare_Fin: "map fsquare (map Fin ds) = map Fin (map (\<lambda>d. d * d) ds)"
  by (simp add: fsquare_def)

lemma map_fabs_Fin: "map fabs (map Fin ds) = map Fin (map abs ds)"
  by simp

lemma sum_list_squares_nonneg: "0 \<le> sum_list (map (\<lambda>d. d * d) (ds :: real list))"
  by (rule sum_list_nonneg) auto

lemma sum_list_dev_nonneg: "0 \<le> sum_list (map (\<lambda>d. (d - m) * (d - m)) (ds :: real list))"
  by (rule sum_list_nonneg) auto

text \<open>The two interval factors, for a finite point estimate.\<close>

lemma lower_Fin:
  assumes "9 \<le> N"
  shows "fmul (Fin r) (fsub (Fin 1) (fsqrt (fsub (Fin 1) (kfac N))))
           = Fin (r * (1 - sqrt (1 - 1.96 * sqrt 2 / sqrt (real N - 1))))"
proof -
  have "2 \<le> N" using assms by simp
  then have k: "kfac N = Fin (1.96 * sqrt 2 / sqrt (real N - 1))" by (rule kfac_Fin)
  have "\<not> 1 - 1.96 * sqrt 2 / sqrt (real N - 1) < 0"
    using kfac_small [OF assms] by (simp add: not_less)
  then show ?thesis unfolding k fsub_def by simp
qed

lemma lower_NaN:
  assumes "2 \<le> N" "N \<le> 8"
  shows "fmul (Fin r) (fsub (Fin 1) (fsqrt (fsub (Fin 1) (kfac N)))) = NaN"
proof -
  have k: "kfac N = Fin (1.96 * sqrt 2 / sqrt (real N - 1))" using assms(1) by (rule kfac_Fin)
  have "1 - 1.96 * sqrt 2 / sqrt (real N - 1) < 0"
    using kfac_large [OF assms] by simp
  then show ?thesis unfolding k fsub_def by simp
qed

lemma upper_Fin:
  assumes "2 \<le> N"
  shows "fmul (Fin r) (fsub (fsqrt (fadd (Fin 1) (kfac N))) (Fin 1))
           = Fin (r * (sqrt (1 + 1.96 * sqrt 2 / sqrt (real N - 1)) - 1))"
proof -
  have k: "kfac N = Fin (1.96 * sqrt 2 / sqrt (real N - 1))" using assms by (rule kfac_Fin)
  have "\<not> 1 + 1.96 * sqrt 2 / sqrt (real N - 1) < 0"
    using kfac_pos [OF assms] by (simp add: not_less add_nonneg_nonneg)
  then show ?thesis unfolding k fsub_def by simp
qed

lemma rmse_Fin:
  assumes len: "length xs = length ys" and N: "9 \<le> length xs"
  shows "rmse (map Fin xs) (map Fin ys) =
     Inr (Fin (sqrt (sum_list (map (\<lambda>d. d * d) (map2 (-) xs ys)) / real (length xs))),
          Fin (sqrt (sum_list (map (\<lambda>d. d * d) (map2 (-) xs ys)) / real (length xs))
               * (1 - sqrt (1 - 1.96 * sqrt 2 / sqrt (real (length xs) - 1)))),
          Fin (sqrt (sum_list (map (\<lambda>d. d * d) (map2 (-) xs ys)) / real (length xs))
               * (sqrt (1 + 1.96 * sqrt 2 / sqrt (real (length xs) - 1)) - 1)))"
proof -
  let ?ds = "map2 (-) xs ys"
  have ne: "map (\<lambda>d. d * d) ?ds \<noteq> []" using len N by auto
  have l: "length (map (\<lambda>d. d * d) ?ds) = length xs" using len by simp
  have mean: "arr_mean (map fsquare (map Fin ?ds))
      = Fin (sum_list (map (\<lambda>d. d * d) ?ds) / real (length xs))"
    unfolding map_fsquare_Fin using arr_mean_Fin [OF ne] l by simp
  have nn: "\<not> sum_list (map (\<lambda>d. d * d) ?ds) / real (length xs) < 0"
    using sum_list_squares_nonneg [of ?ds] by (simp add: not_less)
  have sq: "fsqrt (arr_mean (map fsquare (map Fin ?ds)))
      = Fin (sqrt (sum_list (map (\<lambda>d. d * d) ?ds) / real (length xs)))"
    unfolding mean using nn by simp
  have N2: "2 \<le> length xs" using N by simp
  have "\<not> length xs < 9" using N by simp
  then show ?thesis
    unfolding rmse_def Let_def length_map arr_sub_Fin [OF len] sum.case sq
      lower_Fin [OF N] upper_Fin [OF N2]
    by simp
qed

lemma mae_Fin:
  assumes len: "length xs = length ys" and N: "1 \<le> length xs"
  shows "mae (map Fin xs) (map Fin ys) =
     Inr (Fin (sum_list (map abs (map2 (-) xs ys)) / real (length xs)),
          fmul (Fin (sum_list (map abs (map2 (-) xs ys)) / real (length xs)))
               (fsub (Fin 1) (fsqrt (fsub (Fin 1) (kfac (length xs))))),
          fmul (Fin (sum_list (map abs (map2 (-) xs ys)) / real (length xs)))
               (fsub (fsqrt (fadd (Fin 1) (kfac (length xs)))) (Fin 1)))"
proof -
  let ?ds = "map2 (-) xs ys"
  have ne: "map abs ?ds \<noteq> []" using len N by auto
  have l: "length (map abs ?ds) = length xs" using len by simp
  have mean: "arr_mean (map fabs (map Fin ?ds)) = Fin (sum_list (map abs ?ds) / real (length xs))"
    unfolding map_fabs_Fin using arr_mean_Fin [OF ne] l by simp
  show ?thesis
    unfolding mae_def Let_def length_map arr_sub_Fin [OF len] sum.case mean
    by simp
qed

lemma me_Fin:
  assumes len: "length xs = length ys" and N: "1 \<le> length xs"
  shows "me (map Fin xs) (map Fin ys) =
     Inr (Fin (sum_list (map2 (-) xs ys) / real (length xs)),
          Fin (1.96 * sqrt (sum_list (map (\<lambda>d. (d - sum_list (map2 (-) xs ys) / real (length xs))
                  * (d - sum_list (map2 (-) xs ys) / real (length xs))) (map2 (-) xs ys))
                / real (length xs)) / sqrt (real (length xs))))"
proof -
  let ?ds = "map2 (-) xs ys"
  let ?m = "sum_list ?ds / real (length xs)"
  have ne: "?ds \<noteq> []" using len N by auto
  have l: "length ?ds = length xs" using len by simp
  have mean: "arr_mean (map Fin ?ds) = Fin ?m"
    using arr_mean_Fin [OF ne] l by simp
  have dev: "map (\<lambda>x. fsquare (fsub x (Fin ?m))) (map Fin ?ds)
      = map Fin (map (\<lambda>d. (d - ?m) * (d - ?m)) ?ds)"
    by (simp add: fsquare_def fsub_def)
  have nn: "\<not> sum_list (map (\<lambda>d. (d - ?m) * (d - ?m)) ?ds) / real (length xs) < 0"
    using sum_list_dev_nonneg [of ?m ?ds] by (simp add: not_less)
  have sd: "stdevp (map Fin ?ds) (Fin ?m) (length xs)
      = Fin (sqrt (sum_list (map (\<lambda>d. (d - ?m) * (d - ?m)) ?ds) / real (length xs)))"
    unfolding stdevp_def dev arr_sum_Fin using N nn by auto
  have pos: "real (length xs) \<noteq> 0" "\<not> real (length xs) < 0" using N by auto
  show ?thesis
    unfolding me_def Let_def length_map arr_sub_Fin [OF len] sum.case mean sd
    using pos by simp
qed

lemma sum_list_map_map2:
  "length xs = length ys \<Longrightarrow>
   sum_list (map f (map2 (-) xs ys)) = (\<Sum>i<length xs. (f (xs ! i - ys ! i) :: real))"
  by (simp add: sum_list_sum_nth atLeast0LessThan)

lemma sum_list_map2_diff:
  "length xs = length ys \<Longrightarrow>
   sum_list (map2 (-) xs ys) = (\<Sum>i<length xs. (xs ! i - ys ! i :: real))"
  using sum_list_map_map2 [of xs ys "\<lambda>d. d"] by simp



section \<open>The measures on finite series\<close>





text \<open>
  Claim C4. The claim has \<open>mae\<close> refuse fewer than nine points, as \<open>rmse\<close> does with
  the same interval formula. \<open>mae\<close> has no such test: for the three points below it
  reports no error and returns a triple whose lower error is NaN.
\<close>

theorem mae_no_guard:
  "mae [Fin 1, Fin 2, Fin 3] [Fin 0, Fin 0, Fin 0]
     = Inr (Fin 2, NaN, Fin (2 * (sqrt (1 + 1.96 * sqrt 2 / sqrt 2) - 1)))"
proof -
  have l: "fmul (Fin 2) (fsub (Fin 1) (fsqrt (fsub (Fin 1) (kfac (Suc (Suc (Suc 0))))))) = NaN"
    by (rule lower_NaN) simp_all
  have u: "fmul (Fin 2) (fsub (fsqrt (fadd (Fin 1) (kfac (Suc (Suc (Suc 0)))))) (Fin 1))
      = Fin (2 * (sqrt (1 + 1.96 * sqrt 2 / sqrt 2) - 1))"
    using upper_Fin [of "Suc (Suc (Suc 0))" 2] by simp
  have "mae (map Fin [1, 2, 3]) (map Fin [0, 0, 0])
     = Inr (Fin 2, NaN, Fin (2 * (sqrt (1 + 1.96 * sqrt 2 / sqrt 2) - 1)))"
    using mae_Fin [of "[1, 2, 3]" "[0, 0, 0]"]
    by (simp add: l u)
  then show ?thesis by simp
qed

text \<open>
  Claim C5. For two series of the same length \<open>N \<ge> 1\<close> with finite entries, \<open>me\<close>
  returns the mean \<open>m\<close> of \<open>X - Y\<close> and the half-width \<open>1.96*s_N/sqrt(N)\<close>, where
  \<open>s_N = sqrt(sum((E - m)^2)/N)\<close> for \<open>E = X - Y\<close> is the population standard deviation,
  with divisor \<open>N\<close>, as \<open>stdevp\<close> computes it.
\<close>

theorem me_pair:
  fixes xs ys :: "real list"
  assumes "length xs = length ys" and "1 \<le> length xs"
  shows "let N = length xs;
             m = (\<Sum>i<N. xs ! i - ys ! i) / real N;
             s_N = sqrt ((\<Sum>i<N. (xs ! i - ys ! i - m)\<^sup>2) / real N)
         in me (map Fin xs) (map Fin ys) = Inr (Fin m, Fin (1.96 * s_N / sqrt (real N)))
            \<and> stdevp (map Fin (map2 (-) xs ys)) (Fin m) N = Fin s_N"
proof -
  let ?N = "length xs"
  let ?m = "(\<Sum>i<?N. xs ! i - ys ! i) / real ?N"
  have m: "sum_list (map2 (-) xs ys) = (\<Sum>i<?N. xs ! i - ys ! i)"
    by (rule sum_list_map2_diff [OF assms(1)])
  have dv: "sum_list (map (\<lambda>d. (d - ?m) * (d - ?m)) (map2 (-) xs ys))
      = (\<Sum>i<?N. (xs ! i - ys ! i - ?m)\<^sup>2)"
    using sum_list_map_map2 [OF assms(1), of "\<lambda>d. (d - ?m) * (d - ?m)"]
    by (simp add: power2_eq_square)
  have val: "me (map Fin xs) (map Fin ys)
      = Inr (Fin ?m, Fin (1.96 * sqrt ((\<Sum>i<?N. (xs ! i - ys ! i - ?m)\<^sup>2) / real ?N)
               / sqrt (real ?N)))"
    using me_Fin [OF assms] unfolding m dv .
  have dev: "map (\<lambda>x. fsquare (fsub x (Fin ?m))) (map Fin (map2 (-) xs ys))
      = map Fin (map (\<lambda>d. (d - ?m) * (d - ?m)) (map2 (-) xs ys))"
    by (simp add: fsquare_def fsub_def)
  have nn: "\<not> (\<Sum>i<?N. (xs ! i - ys ! i - ?m)\<^sup>2) / real ?N < 0"
    by (simp add: not_less sum_nonneg)
  have sd: "stdevp (map Fin (map2 (-) xs ys)) (Fin ?m) ?N
      = Fin (sqrt ((\<Sum>i<?N. (xs ! i - ys ! i - ?m)\<^sup>2) / real ?N))"
    unfolding stdevp_def dev arr_sum_Fin dv using assms(2) nn by auto
  show ?thesis unfolding Let_def using val sd by blast
qed

theorem me_pair_witness:
  "length [1, 3 :: real] = length [0, 0 :: real] \<and> 1 \<le> length [1, 3 :: real]
   \<and> me (map Fin [1, 3]) (map Fin [0, 0]) = Inr (Fin 2, Fin (1.96 * 1 / sqrt 2))
   \<and> stdevp (map Fin (map2 (-) [1, 3] [0, 0])) (Fin 2) 2 = Fin 1"
proof -
  have m: "(\<Sum>i<2. [1, 3 :: real] ! i - [0, 0] ! i) = 4"
    by (simp add: eval_nat_numeral)
  have d: "(\<Sum>i<2. ([1, 3 :: real] ! i - [0, 0] ! i - 2)\<^sup>2) = 2"
    by (simp add: eval_nat_numeral)
  show ?thesis
    using me_pair [of "[1, 3]" "[0, 0]"]
    by (simp add: Let_def m d eval_nat_numeral)
qed





section \<open>The two loops of the driver\<close>

lemma metrics_step_Inr_D:
  assumes "metrics_step ref acc mdata = Inr acc'"
  shows "\<exists>t. rmse mdata ref = Inr t
           \<and> rmse_list acc' = rmse_list acc @ [fst t]
           \<and> lower_error acc' = lower_error acc @ [fst (snd t)]
           \<and> upper_error acc' = upper_error acc @ [snd (snd t)]"
  using assms unfolding metrics_step_def
  by (auto split: sum.splits error.splits prod.splits)

lemma metrics_loop_Inr_D:
  assumes "metrics_loop ref acc mds = Inr acc'"
  shows "\<exists>ts. list_all2 (\<lambda>md t. rmse md ref = Inr t) mds ts
           \<and> rmse_list acc' = rmse_list acc @ map fst ts
           \<and> lower_error acc' = lower_error acc @ map (\<lambda>t. fst (snd t)) ts
           \<and> upper_error acc' = upper_error acc @ map (\<lambda>t. snd (snd t)) ts"
  using assms
proof (induction mds arbitrary: acc)
  case Nil
  then show ?case by simp
next
  case (Cons md mds)
  from Cons.prems obtain acc1 where
    s: "metrics_step ref acc md = Inr acc1" and l: "metrics_loop ref acc1 mds = Inr acc'"
    by (auto split: sum.splits)
  from metrics_step_Inr_D [OF s] obtain t where
    t: "rmse md ref = Inr t" "rmse_list acc1 = rmse_list acc @ [fst t]"
      "lower_error acc1 = lower_error acc @ [fst (snd t)]"
      "upper_error acc1 = upper_error acc @ [snd (snd t)]"
    by blast
  from Cons.IH [OF l] obtain ts where
    ts: "list_all2 (\<lambda>md t. rmse md ref = Inr t) mds ts"
      "rmse_list acc' = rmse_list acc1 @ map fst ts"
      "lower_error acc' = lower_error acc1 @ map (\<lambda>t. fst (snd t)) ts"
      "upper_error acc' = upper_error acc1 @ map (\<lambda>t. snd (snd t)) ts"
    by blast
  have "list_all2 (\<lambda>md t. rmse md ref = Inr t) (md # mds) (t # ts)"
    using t(1) ts(1) by simp
  moreover have "rmse_list acc' = rmse_list acc @ map fst (t # ts)"
    using t(2) ts(2) by simp
  moreover have "lower_error acc' = lower_error acc @ map (\<lambda>t. fst (snd t)) (t # ts)"
    using t(3) ts(3) by simp
  moreover have "upper_error acc' = upper_error acc @ map (\<lambda>t. snd (snd t)) (t # ts)"
    using t(4) ts(4) by simp
  ultimately show ?case by blast
qed

lemma metrics_loop_nth:
  assumes "metrics_loop ref no_metrics mds = Inr acc" and "k < length mds"
  shows "rmse (mds ! k) ref = Inr (rmse_list acc ! k, lower_error acc ! k, upper_error acc ! k)"
proof -
  from metrics_loop_Inr_D [OF assms(1)] obtain ts where
    ts: "list_all2 (\<lambda>md t. rmse md ref = Inr t) mds ts"
      "rmse_list acc = map fst ts"
      "lower_error acc = map (\<lambda>t. fst (snd t)) ts"
      "upper_error acc = map (\<lambda>t. snd (snd t)) ts"
    by (auto simp: no_metrics_def)
  have len: "length ts = length mds" using ts(1) by (simp add: list_all2_lengthD)
  have "rmse (mds ! k) ref = Inr (ts ! k)"
    using ts(1) assms(2) by (simp add: list_all2_conv_all_nth)
  then show ?thesis using ts(2-4) len assms(2) by simp
qed

lemma pair_loop_mem:
  assumes "i < j" and "j < nm"
  shows "pair_row c ms ds acc i j \<in> set (pair_loop c ms ds acc nm)"
proof -
  let ?f = "\<lambda>i. map (\<lambda>j. pair_row c ms ds acc i j) [i + 1..<nm]"
  have i: "i \<in> set [0..<nm]" using assms by simp
  have j: "j \<in> set [i + 1..<nm]" using assms by simp
  have "pair_row c ms ds acc i j \<in> (\<lambda>j. pair_row c ms ds acc i j) ` set [i + 1..<nm]"
    using j by (rule imageI)
  then have a: "pair_row c ms ds acc i j \<in> set (?f i)" by (simp only: set_map)
  have "?f i \<in> ?f ` set [0..<nm]" using i by (rule imageI)
  then have b: "?f i \<in> set (map ?f [0..<nm])" by (simp only: set_map)
  show ?thesis unfolding pair_loop_def set_concat using b a by (rule UN_I)
qed

lemma main_Inr_D:
  assumes "main c ref cols = Inr rows"
  shows "\<exists>acc. metrics_loop ref no_metrics (map snd cols @ [map (\<lambda>_. arr_mean ref) ref]) = Inr acc
           \<and> rows = pair_loop c (map fst cols @ [''null''])
                      (map snd cols @ [map (\<lambda>_. arr_mean ref) ref]) acc (length cols + 1)"
  using assms unfolding main_def Let_def by (auto split: sum.splits)

lemma flt_asym: "flt a b \<Longrightarrow> \<not> flt b a"
  by (cases a; cases b) auto

lemma fadd_NaN_right: "fadd x NaN = NaN"
  by (cases x) simp_all

lemma flt_NaN_right: "flt x NaN = False"
  by (cases x) simp_all

lemma main_row:
  assumes run: "main corrcoef ref cols = Inr rows"
    and ij: "i < j" "j \<le> length cols"
    and methods: "methods = map fst cols @ [''null'']"
    and data: "method_data = map snd cols @ [map (\<lambda>_. arr_mean ref) ref]"
  shows "\<exists>acc. pair_row corrcoef methods method_data acc i j \<in> set rows
           \<and> rmse (method_data ! i) ref
               = Inr (rmse_list acc ! i, lower_error acc ! i, upper_error acc ! i)
           \<and> rmse (method_data ! j) ref
               = Inr (rmse_list acc ! j, lower_error acc ! j, upper_error acc ! j)"
proof -
  from main_Inr_D [OF run] obtain acc where
    loop: "metrics_loop ref no_metrics method_data = Inr acc" and
    rows: "rows = pair_loop corrcoef methods method_data acc (length cols + 1)"
    unfolding methods data by blast
  have len: "length method_data = length cols + 1" unfolding data by simp
  have j: "j < length cols + 1" using ij(2) by simp
  have i: "i < length method_data" using ij len by simp
  have j': "j < length method_data" using ij len by simp
  have "pair_row corrcoef methods method_data acc i j \<in> set rows"
    unfolding rows using ij(1) j by (rule pair_loop_mem)
  then show ?thesis
    using metrics_loop_nth [OF loop i] metrics_loop_nth [OF loop j'] by blast
qed

lemma null_Fin:
  "ref \<noteq> [] \<Longrightarrow>
   map (\<lambda>_. arr_mean (map Fin ref)) (map Fin ref)
     = map Fin (map (\<lambda>_. sum_list ref / real (length ref)) ref)"
  by (simp add: arr_mean_Fin)

lemma metrics_step_fin:
  assumes len: "length xs = length ys" and N: "9 \<le> length ys"
  shows "\<exists>acc'. metrics_step (map Fin ys) acc (map Fin xs) = Inr acc'"
proof -
  have N9: "9 \<le> length xs" and N1: "1 \<le> length xs" using len N by simp_all
  show ?thesis
    unfolding metrics_step_def
    by (simp add: rmse_Fin [OF len N9] mae_Fin [OF len N1] me_Fin [OF len N1])
qed

lemma metrics_loop_fin:
  assumes "\<forall>xs\<in>set xss. length xs = length ys" and "9 \<le> length ys"
  shows "\<exists>acc'. metrics_loop (map Fin ys) acc (map (map Fin) xss) = Inr acc'"
  using assms(1)
proof (induction xss arbitrary: acc)
  case Nil
  then show ?case by simp
next
  case (Cons xs xss)
  have "length xs = length ys" using Cons.prems by simp
  from metrics_step_fin [OF this assms(2)] obtain acc1 where
    s: "metrics_step (map Fin ys) acc (map Fin xs) = Inr acc1" by blast
  have "\<forall>xs\<in>set xss. length xs = length ys" using Cons.prems by simp
  from Cons.IH [OF this] obtain acc' where
    "metrics_loop (map Fin ys) acc1 (map (map Fin) xss) = Inr acc'" by blast
  then show ?case using s by simp
qed

lemma main_fin:
  assumes "\<forall>xs\<in>set xss. length xs = length ref" and "9 \<le> length ref"
    and "length names = length xss"
  shows "\<exists>rows. main c (map Fin ref) (zip names (map (map Fin) xss)) = Inr rows"
proof -
  have ne: "ref \<noteq> []" using assms(2) by auto
  let ?null = "map (\<lambda>_. sum_list ref / real (length ref)) ref"
  have all: "\<forall>xs\<in>set (xss @ [?null]). length xs = length ref" using assms(1) by simp
  have data: "map snd (zip names (map (map Fin) xss))
                @ [map (\<lambda>_. arr_mean (map Fin ref)) (map Fin ref)]
      = map (map Fin) (xss @ [?null])"
    unfolding null_Fin [OF ne] using assms(3) by simp
  from metrics_loop_fin [OF all assms(2)] obtain acc where
    "metrics_loop (map Fin ref) no_metrics (map (map Fin) (xss @ [?null])) = Inr acc"
    by blast
  then show ?thesis unfolding main_def Let_def data by simp
qed

lemma pair_loop_3:
  "pair_loop c ms ds acc 3
     = [pair_row c ms ds acc 0 1, pair_row c ms ds acc 0 2, pair_row c ms ds acc 1 2]"
  by (simp add: pair_loop_def eval_nat_numeral)

lemma pair_loop_2: "pair_loop c ms ds acc 2 = [pair_row c ms ds acc 0 1]"
  by (simp add: pair_loop_def eval_nat_numeral)

lemma rmse_self:
  assumes "9 \<le> length ref"
  shows "rmse (map Fin ref) (map Fin ref) = Inr (Fin 0, Fin 0, Fin 0)"
proof -
  have "sum_list (map (\<lambda>d. d * d) (map2 (-) ref ref)) = 0" by (induction ref) simp_all
  then show ?thesis using rmse_Fin [OF refl assms] by simp
qed

section \<open>A candidate that is the reference plus a constant\<close>

lemma sqrt_9: "sqrt 9 = 3"
  using real_sqrt_abs [of 3] by simp

lemma shift_diffs:
  "map2 (-) (map (\<lambda>x. x + c) ref) ref = map (\<lambda>_. c) (ref :: real list)"
  by (induction ref) simp_all

lemma rmse_shift:
  assumes "9 \<le> length ref"
  shows "rmse (map Fin (map (\<lambda>x. x + c) ref)) (map Fin ref)
     = Inr (Fin \<bar>c\<bar>,
            Fin (\<bar>c\<bar> * (1 - sqrt (1 - 1.96 * sqrt 2 / sqrt (real (length ref) - 1)))),
            Fin (\<bar>c\<bar> * (sqrt (1 + 1.96 * sqrt 2 / sqrt (real (length ref) - 1)) - 1)))"
proof -
  have len: "length (map (\<lambda>x. x + c) ref) = length ref" by simp
  have N: "9 \<le> length (map (\<lambda>x. x + c) ref)" using assms by simp
  have ne: "real (length ref) \<noteq> 0" using assms by auto
  have "sum_list (map (\<lambda>d. d * d) (map2 (-) (map (\<lambda>x. x + c) ref) ref))
      = c * c * real (length ref)"
    unfolding shift_diffs by (induction ref) (simp_all add: algebra_simps)
  then have "sum_list (map (\<lambda>d. d * d) (map2 (-) (map (\<lambda>x. x + c) ref) ref))
      / real (length ref) = c * c"
    using ne by simp
  then have "sqrt (sum_list (map (\<lambda>d. d * d) (map2 (-) (map (\<lambda>x. x + c) ref) ref))
      / real (length ref)) = \<bar>c\<bar>"
    by simp
  then show ?thesis using rmse_Fin [OF len N] by simp
qed

lemma mae_shift:
  assumes "9 \<le> length ref"
  shows "mae (map Fin (map (\<lambda>x. x + c) ref)) (map Fin ref)
     = Inr (Fin \<bar>c\<bar>,
            Fin (\<bar>c\<bar> * (1 - sqrt (1 - 1.96 * sqrt 2 / sqrt (real (length ref) - 1)))),
            Fin (\<bar>c\<bar> * (sqrt (1 + 1.96 * sqrt 2 / sqrt (real (length ref) - 1)) - 1)))"
proof -
  have len: "length (map (\<lambda>x. x + c) ref) = length ref" by simp
  have N1: "1 \<le> length (map (\<lambda>x. x + c) ref)" using assms by simp
  have N2: "2 \<le> length ref" using assms by simp
  have ne: "real (length ref) \<noteq> 0" using assms by auto
  have "sum_list (map abs (map2 (-) (map (\<lambda>x. x + c) ref) ref)) = \<bar>c\<bar> * real (length ref)"
    unfolding shift_diffs by (induction ref) (simp_all add: algebra_simps)
  then have m: "sum_list (map abs (map2 (-) (map (\<lambda>x. x + c) ref) ref)) / real (length ref)
      = \<bar>c\<bar>"
    using ne by simp
  show ?thesis
    using mae_Fin [OF len N1]
    unfolding m length_map lower_Fin [OF assms] upper_Fin [OF N2] .
qed

lemma me_shift:
  assumes "1 \<le> length ref"
  shows "me (map Fin (map (\<lambda>x. x + c) ref)) (map Fin ref) = Inr (Fin c, Fin 0)"
proof -
  have len: "length (map (\<lambda>x. x + c) ref) = length ref" by simp
  have N1: "1 \<le> length (map (\<lambda>x. x + c) ref)" using assms by simp
  have ne: "real (length ref) \<noteq> 0" using assms by auto
  have "sum_list (map2 (-) (map (\<lambda>x. x + c) ref) ref) = c * real (length ref)"
    unfolding shift_diffs by (induction ref) (simp_all add: algebra_simps)
  then have m: "sum_list (map2 (-) (map (\<lambda>x. x + c) ref) ref) / real (length ref) = c"
    using ne by simp
  have d: "sum_list (map (\<lambda>d. (d - c) * (d - c)) (map2 (-) (map (\<lambda>x. x + c) ref) ref)) = 0"
    unfolding shift_diffs by (induction ref) simp_all
  show ?thesis
    using me_Fin [OF len N1] unfolding m d length_map by simp
qed

lemma lower5_bounds:
  assumes "9 \<le> N"
  shows "0 \<le> 5 * (1 - sqrt (1 - 1.96 * sqrt 2 / sqrt (real N - 1)))"
    and "5 * (1 - sqrt (1 - 1.96 * sqrt 2 / sqrt (real N - 1))) \<le> 5"
proof -
  let ?k = "1.96 * sqrt 2 / sqrt (real N - 1)"
  have N2: "2 \<le> N" using assms by simp
  have k0: "0 \<le> ?k" using kfac_pos [OF N2] by (rule less_imp_le)
  have k1: "0 \<le> 1 - ?k" using kfac_small [OF assms] by simp
  have "sqrt (1 - ?k) \<le> 1" using k0 by simp
  then show "0 \<le> 5 * (1 - sqrt (1 - ?k))" by simp
  have "0 \<le> sqrt (1 - ?k)" using k1 by simp
  then show "5 * (1 - sqrt (1 - ?k)) \<le> 5" by simp
qed

lemma comp_upper_zero:
  assumes "0 \<le> l" and "l \<le> 5"
  shows "\<not> flt (Fin 5) (fsqrt (fsub (fadd (fsquare (Fin 0)) (fsquare (Fin l)))
                                    (fmul (fmul (fmul (Fin 2) r) (Fin 0)) (Fin l))))"
proof (cases r)
  case (Fin x)
  have "sqrt (l * l) = l" using assms(1) by simp
  then show ?thesis using Fin assms by (simp add: fsquare_def fsub_def not_less)
next
  case PInf
  then show ?thesis by (simp add: fsquare_def fsub_def sgn_inf_def)
next
  case NInf
  then show ?thesis by (simp add: fsquare_def fsub_def sgn_inf_def)
next
  case NaN
  then show ?thesis by (simp add: fsquare_def fsub_def)
qed

lemma scenario_B_C:
  assumes N: "9 \<le> length ref"
  shows "\<exists>rows. main c (map Fin ref)
             [(''B'', map Fin ref), (''C'', map Fin (map (\<lambda>x. x + 5) ref))] = Inr rows
           \<and> length rows = 3
           \<and> method_a (rows ! 0) = ''B'' \<and> method_b (rows ! 0) = ''C''
           \<and> rmse_a (rows ! 0) = Fin 0 \<and> rmse_b (rows ! 0) = Fin 5
           \<and> same (rows ! 0) = False"
proof -
  let ?cols = "[(''B'', map Fin ref), (''C'', map Fin (map (\<lambda>x. x + 5) ref))]"
  let ?ms = "map fst ?cols @ [''null'']"
  let ?ds = "map snd ?cols @ [map (\<lambda>_. arr_mean (map Fin ref)) (map Fin ref)]"
  have "\<forall>xs\<in>set [ref, map (\<lambda>x. x + 5) ref]. length xs = length ref" by simp
  from main_fin [OF this N, of "[''B'', ''C'']" c] obtain rows where
    run: "main c (map Fin ref) ?cols = Inr rows" by auto
  from main_Inr_D [OF run] obtain acc where
    loop: "metrics_loop (map Fin ref) no_metrics ?ds = Inr acc" and
    rows0: "rows = pair_loop c ?ms ?ds acc (length ?cols + 1)"
    by blast
  define l where "l = 5 * (1 - sqrt (1 - 1.96 * sqrt 2 / sqrt (real (length ref) - 1)))"
  have three: "length ?cols + 1 = 3" by simp
  have rows: "rows = pair_loop c ?ms ?ds acc 3" using rows0 unfolding three .
  have "Inr (rmse_list acc ! 0, lower_error acc ! 0, upper_error acc ! 0)
      = rmse (?ds ! 0) (map Fin ref)"
    by (rule metrics_loop_nth [OF loop, symmetric]) simp
  also have "\<dots> = Inr (Fin 0, Fin 0, Fin 0)" using rmse_self [OF N] by simp
  finally have a0: "rmse_list acc ! 0 = Fin 0" "upper_error acc ! 0 = Fin 0"
    by simp_all
  have "Inr (rmse_list acc ! 1, lower_error acc ! 1, upper_error acc ! 1)
      = rmse (?ds ! 1) (map Fin ref)"
    by (rule metrics_loop_nth [OF loop, symmetric]) simp
  also have "\<dots> = Inr (Fin 5,
      Fin (5 * (1 - sqrt (1 - 1.96 * sqrt 2 / sqrt (real (length ref) - 1)))),
      Fin (5 * (sqrt (1 + 1.96 * sqrt 2 / sqrt (real (length ref) - 1)) - 1)))"
    using rmse_shift [OF N, of 5] by simp
  finally have a1: "rmse_list acc ! 1 = Fin 5" "lower_error acc ! 1 = Fin l"
    unfolding l_def by simp_all
  have r0: "rows ! 0 = pair_row c ?ms ?ds acc 0 1" unfolding rows pair_loop_3 by simp
  have d: "fabs (fsub (Fin 0) (Fin 5)) = Fin 5" by (simp add: fsub_def)
  have lb: "0 \<le> l" "l \<le> 5" unfolding l_def by (rule lower5_bounds [OF N])+
  have verdict: "same (rows ! 0) = False"
    unfolding r0
    using comp_upper_zero [OF lb, of "c (?ds ! 0) (?ds ! 1)"]
    by (simp add: pair_row_def Let_def a0 a1 [unfolded One_nat_def] fgt_def d)
  have "length rows = 3" unfolding rows pair_loop_3 by simp
  moreover have "method_a (rows ! 0) = ''B''" "method_b (rows ! 0) = ''C''"
    unfolding r0 by (simp_all add: pair_row_def Let_def)
  moreover have "rmse_a (rows ! 0) = Fin 0" "rmse_b (rows ! 0) = Fin 5"
    unfolding r0 by (simp_all add: pair_row_def Let_def a0 a1 [unfolded One_nat_def])
  ultimately show ?thesis using run verdict by blast
qed

section \<open>The correlation with a constant series\<close>

lemma covar_constant:
  assumes "length xs = length ys" and "2 \<le> length xs"
  shows "covar (map Fin xs) (map (\<lambda>_. Fin c) ys) = Fin 0"
    and "covar (map (\<lambda>_. Fin c) ys) (map (\<lambda>_. Fin c) ys) = Fin 0"
proof -
  have ne: "ys \<noteq> []" "xs \<noteq> []" using assms by auto
  have n0: "real (length ys) \<noteq> 0" "real (length ys) - 1 \<noteq> 0" using assms by auto
  have cs: "map (\<lambda>_. Fin c) ys = map Fin (map (\<lambda>_. c) ys)" by simp
  have "sum_list (map (\<lambda>_. c) ys) = c * real (length ys)"
    by (induction ys) (simp_all add: algebra_simps)
  then have my: "arr_mean (map (\<lambda>_. Fin c) ys) = Fin c"
    unfolding cs using arr_mean_Fin [of "map (\<lambda>_. c) ys"] ne n0 by simp
  have mx: "arr_mean (map Fin xs) = Fin (sum_list xs / real (length xs))"
    by (rule arr_mean_Fin [OF ne(2)])
  have z1: "map2 (\<lambda>x y. fmul (fsub x (Fin m)) (fsub y (Fin c))) (map Fin xs) (map (\<lambda>_. Fin c) ys)
      = map Fin (map (\<lambda>_. 0) (zip xs ys))" for m
    by (auto simp: zip_map_map fsub_def)
  have z2: "map2 (\<lambda>x y. fmul (fsub x (Fin c)) (fsub y (Fin c)))
        (map (\<lambda>_. Fin c) ys) (map (\<lambda>_. Fin c) ys)
      = map Fin (map (\<lambda>_. 0) (zip ys ys))"
    by (auto simp: zip_map_map fsub_def)
  have s0: "sum_list (map (\<lambda>_. 0 :: real) zs) = 0" for zs :: "(real \<times> real) list"
    by simp
  show "covar (map Fin xs) (map (\<lambda>_. Fin c) ys) = Fin 0"
    unfolding covar_def Let_def mx my z1 arr_sum_Fin s0 using assms n0 by simp
  show "covar (map (\<lambda>_. Fin c) ys) (map (\<lambda>_. Fin c) ys) = Fin 0"
    unfolding covar_def Let_def my z2 arr_sum_Fin s0 using n0 by simp
qed

lemma covar_Fin:
  assumes "length xs = length ys" and "2 \<le> length xs"
  shows "\<exists>v. covar (map Fin xs) (map Fin ys) = Fin v"
proof -
  have ne: "ys \<noteq> []" "xs \<noteq> []" using assms by auto
  have n0: "real (length xs) - 1 \<noteq> 0" using assms by auto
  have mx: "arr_mean (map Fin xs) = Fin (sum_list xs / real (length xs))"
    by (rule arr_mean_Fin [OF ne(2)])
  have my: "arr_mean (map Fin ys) = Fin (sum_list ys / real (length ys))"
    by (rule arr_mean_Fin [OF ne(1)])
  have z: "map2 (\<lambda>x y. fmul (fsub x (Fin a)) (fsub y (Fin b))) (map Fin xs) (map Fin ys)
      = map Fin (map2 (\<lambda>x y. (x - a) * (y - b)) xs ys)" for a b
    by (simp add: zip_map_map fsub_def split_def)
  show ?thesis
    unfolding covar_def Let_def mx my z arr_sum_Fin using n0 by simp
qed

lemma pearson_constant:
  assumes "length xs = length ys" and "2 \<le> length xs"
  shows "pearson (map Fin xs) (map (\<lambda>_. Fin c) ys) = NaN"
proof -
  from covar_Fin [OF refl assms(2)] obtain v where
    v: "covar (map Fin xs) (map Fin xs) = Fin v" by blast
  show ?thesis
    unfolding pearson_def covar_constant [OF assms] v by simp
qed

section \<open>The scenarios, evaluated\<close>

lemma sqrt_sq_55_6: "sqrt (3025 / 36) = 55 / 6"
  using real_sqrt_abs [of "55 / 6"] by (simp add: power2_eq_square)

lemma scenario_ref_length: "length scenario_ref = 10"
  by (simp add: scenario_ref_def)

lemma scenario_factor: "sqrt (real (length scenario_ref) - 1) = 3"
  by (simp add: scenario_ref_length sqrt_9)

lemma scenario_lower_pos: "0 < 1 - sqrt (1 - 1.96 * sqrt 2 / 3)"
proof -
  have "1.96 * sqrt 2 / 3 \<le> 0.98"
    using kfac_small [of 10] by (simp add: sqrt_9)
  then have "0 \<le> 1 - 1.96 * sqrt 2 / 3" by simp
  moreover have "1 - 1.96 * sqrt 2 / 3 < 1" by simp
  ultimately have "sqrt (1 - 1.96 * sqrt 2 / 3) < 1" by simp
  then show ?thesis by simp
qed

lemma scenario_upper_pos: "0 < sqrt (1 + 1.96 * sqrt 2 / 3) - 1"
proof -
  have "1 < 1 + 1.96 * sqrt 2 / 3" by simp
  then have "1 < sqrt (1 + 1.96 * sqrt 2 / 3)" by simp
  then show ?thesis by simp
qed

lemma scenario_null:
  "map (\<lambda>_. arr_mean (map Fin scenario_ref)) (map Fin scenario_ref)
     = map (\<lambda>_. Fin (11 / 2)) scenario_ref"
  by (simp add: scenario_ref_def arr_mean_def arr_sum_def)

lemma rmse_scenario_null:
  "rmse (map (\<lambda>_. Fin (11 / 2)) scenario_ref) (map Fin scenario_ref)
     = Inr (Fin (sqrt (33 / 4)), Fin (sqrt (33 / 4) * (1 - sqrt (1 - 1.96 * sqrt 2 / 3))),
            Fin (sqrt (33 / 4) * (sqrt (1 + 1.96 * sqrt 2 / 3) - 1)))"
  using rmse_Fin [of "map (\<lambda>_. 11 / 2) scenario_ref" scenario_ref]
  by (simp add: scenario_ref_def sqrt_9)

lemma scenario_A_null:
  "main pearson (map Fin scenario_ref) [(''A'', map Fin (shifted 1 scenario_ref))]
     = Inr [\<lparr>method_a = ''A'', method_b = ''null'', rmse_a = Fin 1,
             rmse_b = Fin (sqrt (33 / 4)), rmse_a_minus_b = Fin (1 - sqrt (33 / 4)),
             comp_err = NaN, same = False\<rparr>]"
proof -
  let ?ref = "map Fin scenario_ref"
  let ?A = "map Fin (shifted 1 scenario_ref)"
  let ?null = "map (\<lambda>_. Fin (11 / 2)) scenario_ref"
  let ?cols = "[(''A'', ?A)]"
  let ?ms = "[''A'', ''null'']"
  let ?ds = "[?A, ?null]"
  have N: "9 \<le> length scenario_ref" by (simp add: scenario_ref_length)
  have "\<forall>xs\<in>set [shifted 1 scenario_ref]. length xs = length scenario_ref"
    by (simp add: shifted_def)
  from main_fin [OF this N, of "[''A'']" pearson] obtain rows where
    run: "main pearson ?ref ?cols = Inr rows" by auto
  have ms: "map fst ?cols @ [''null''] = ?ms" by simp
  have ds: "map snd ?cols @ [map (\<lambda>_. arr_mean ?ref) ?ref] = ?ds"
    unfolding scenario_null by simp
  have two: "length ?cols + 1 = 2" by simp
  from main_Inr_D [OF run] obtain acc where
    loop: "metrics_loop ?ref no_metrics ?ds = Inr acc" and
    rows: "rows = pair_loop pearson ?ms ?ds acc 2"
    unfolding ms ds two by blast
  have "Inr (rmse_list acc ! 0, lower_error acc ! 0, upper_error acc ! 0) = rmse (?ds ! 0) ?ref"
    by (rule metrics_loop_nth [OF loop, symmetric]) simp
  also have "\<dots> = Inr (Fin 1, Fin (1 - sqrt (1 - 1.96 * sqrt 2 / 3)),
                          Fin (sqrt (1 + 1.96 * sqrt 2 / 3) - 1))"
    using rmse_shift [OF N, of 1] unfolding shifted_def scenario_factor by simp
  finally have a0: "rmse_list acc ! 0 = Fin 1" by simp
  have "Inr (rmse_list acc ! 1, lower_error acc ! 1, upper_error acc ! 1) = rmse (?ds ! 1) ?ref"
    by (rule metrics_loop_nth [OF loop, symmetric]) simp
  also have "\<dots> = Inr (Fin (sqrt (33 / 4)),
      Fin (sqrt (33 / 4) * (1 - sqrt (1 - 1.96 * sqrt 2 / 3))),
      Fin (sqrt (33 / 4) * (sqrt (1 + 1.96 * sqrt 2 / 3) - 1)))"
    using rmse_scenario_null by simp
  finally have a1: "rmse_list acc ! 1 = Fin (sqrt (33 / 4))" by simp
  have "pearson (map Fin (shifted 1 scenario_ref)) (map (\<lambda>_. Fin (11 / 2)) scenario_ref) = NaN"
    by (rule pearson_constant) (simp_all add: shifted_def scenario_ref_length)
  then have r: "pearson (?ds ! 0) (?ds ! 1) = NaN" by simp
  have "pair_row pearson ?ms ?ds acc 0 1
      = \<lparr>method_a = ''A'', method_b = ''null'', rmse_a = Fin 1,
         rmse_b = Fin (sqrt (33 / 4)), rmse_a_minus_b = Fin (1 - sqrt (33 / 4)),
         comp_err = NaN, same = False\<rparr>"
    unfolding pair_row_def Let_def r a0 a1
    by (simp add: fsub_def fadd_NaN_right flt_NaN_right)
  then show ?thesis unfolding run rows pair_loop_2 by simp
qed

section \<open>The pairwise comparison\<close>

text \<open>
  Claim C1. In a run of the driver that prints its table, take two methods of the registry
  (the given methods followed by the null method), \<open>i\<close> before \<open>j\<close>, with the triples
  \<open>(ri, li, ui)\<close> and \<open>(rj, lj, uj)\<close> that \<open>rmse\<close> returns for them and the correlation
  \<open>r\<close> of their series. The table has a line for the pair with the two names and the two
  RMSE values. Its compatible error is \<open>sqrt(upper^2 + lower^2 - 2*r*upper*lower)\<close>, where
  \<open>lower\<close> is the lower error of the method with the larger RMSE and \<open>upper\<close> the upper
  error of the other one (when neither RMSE is larger, the test \<open>rmse_i > rmse_j\<close> fails
  and \<open>lower = lj\<close>, \<open>upper = ui\<close>). The last column, \<open>same?\<close>, is true exactly when
  \<open>|ri - rj|\<close> is less than the compatible error: the pair is then declared not
  statistically significant, and significant otherwise.
\<close>

theorem pairwise_rule:
  assumes run: "main corrcoef ref cols = Inr rows"
    and ij: "i < j" "j \<le> length cols"
    and methods: "methods = map fst cols @ [''null'']"
    and data: "method_data = map snd cols @ [map (\<lambda>_. arr_mean ref) ref]"
    and ti: "rmse (method_data ! i) ref = Inr (ri, li, ui)"
    and tj: "rmse (method_data ! j) ref = Inr (rj, lj, uj)"
    and r: "r = corrcoef (method_data ! i) (method_data ! j)"
  shows "\<exists>row\<in>set rows.
           method_a row = methods ! i \<and> method_b row = methods ! j
         \<and> rmse_a row = ri \<and> rmse_b row = rj
         \<and> (\<exists>lower upper.
               (fgt ri rj \<longrightarrow> lower = li \<and> upper = uj)
             \<and> (fgt rj ri \<longrightarrow> lower = lj \<and> upper = ui)
             \<and> (\<not> fgt ri rj \<longrightarrow> lower = lj \<and> upper = ui)
             \<and> comp_err row
                 = fsqrt (fsub (fadd (fsquare upper) (fsquare lower))
                               (fmul (fmul (fmul (Fin 2) r) upper) lower)))
         \<and> (same row \<longleftrightarrow> flt (fabs (fsub ri rj)) (comp_err row))"
proof -
  from main_row [OF run ij methods data] obtain acc where
    mem: "pair_row corrcoef methods method_data acc i j \<in> set rows" and
    ai: "rmse (method_data ! i) ref
           = Inr (rmse_list acc ! i, lower_error acc ! i, upper_error acc ! i)" and
    aj: "rmse (method_data ! j) ref
           = Inr (rmse_list acc ! j, lower_error acc ! j, upper_error acc ! j)"
    by blast
  have vi: "rmse_list acc ! i = ri" "lower_error acc ! i = li" "upper_error acc ! i = ui"
    using ai ti by simp_all
  have vj: "rmse_list acc ! j = rj" "lower_error acc ! j = lj" "upper_error acc ! j = uj"
    using aj tj by simp_all
  let ?row = "pair_row corrcoef methods method_data acc i j"
  let ?lower = "if fgt ri rj then li else lj"
  let ?upper = "if fgt ri rj then uj else ui"
  have asym: "fgt rj ri \<Longrightarrow> \<not> fgt ri rj"
    unfolding fgt_def by (rule flt_asym)
  have names: "method_a ?row = methods ! i" "method_b ?row = methods ! j"
    by (simp_all add: pair_row_def Let_def)
  have vals: "rmse_a ?row = ri" "rmse_b ?row = rj"
    by (simp_all add: pair_row_def Let_def vi vj)
  have comp: "comp_err ?row
      = fsqrt (fsub (fadd (fsquare ?upper) (fsquare ?lower))
                    (fmul (fmul (fmul (Fin 2) r) ?upper) ?lower))"
    by (simp add: pair_row_def Let_def vi vj r)
  have verdict: "same ?row \<longleftrightarrow> flt (fabs (fsub ri rj)) (comp_err ?row)"
    by (simp add: pair_row_def Let_def vi vj)
  have choice: "(fgt ri rj \<longrightarrow> ?lower = li \<and> ?upper = uj)
      \<and> (fgt rj ri \<longrightarrow> ?lower = lj \<and> ?upper = ui)
      \<and> (\<not> fgt ri rj \<longrightarrow> ?lower = lj \<and> ?upper = ui)"
    using asym by simp
  from choice comp have "\<exists>lower upper.
               (fgt ri rj \<longrightarrow> lower = li \<and> upper = uj)
             \<and> (fgt rj ri \<longrightarrow> lower = lj \<and> upper = ui)
             \<and> (\<not> fgt ri rj \<longrightarrow> lower = lj \<and> upper = ui)
             \<and> comp_err ?row
                 = fsqrt (fsub (fadd (fsquare upper) (fsquare lower))
                               (fmul (fmul (fmul (Fin 2) r) upper) lower))"
    by blast
  with mem names vals verdict show ?thesis by blast
qed

theorem pairwise_rule_witness:
  "main pearson (map Fin scenario_ref)
       [(''B'', map Fin scenario_ref), (''C'', map Fin (shifted 5 scenario_ref))]
     = Inr (projr (main pearson (map Fin scenario_ref)
       [(''B'', map Fin scenario_ref), (''C'', map Fin (shifted 5 scenario_ref))]))
   \<and> rmse (map Fin scenario_ref) (map Fin scenario_ref) = Inr (Fin 0, Fin 0, Fin 0)
   \<and> rmse (map Fin (shifted 5 scenario_ref)) (map Fin scenario_ref)
       = Inr (Fin 5, Fin (5 * (1 - sqrt (1 - 1.96 * sqrt 2 / 3))),
              Fin (5 * (sqrt (1 + 1.96 * sqrt 2 / 3) - 1)))
   \<and> pearson (map Fin scenario_ref) (map Fin (shifted 5 scenario_ref)) = Fin 1
   \<and> (\<exists>row\<in>set (projr (main pearson (map Fin scenario_ref)
           [(''B'', map Fin scenario_ref), (''C'', map Fin (shifted 5 scenario_ref))])).
         method_a row = ''B'' \<and> method_b row = ''C''
       \<and> rmse_a row = Fin 0 \<and> rmse_b row = Fin 5
       \<and> comp_err row = Fin (5 * (1 - sqrt (1 - 1.96 * sqrt 2 / 3)))
       \<and> same row = False)"
proof -
  let ?ref = "map Fin scenario_ref"
  let ?cols = "[(''B'', map Fin scenario_ref), (''C'', map Fin (shifted 5 scenario_ref))]"
  let ?ds = "map snd ?cols @ [map (\<lambda>_. arr_mean ?ref) ?ref]"
  let ?rows = "projr (main pearson ?ref ?cols)"
  define l where "l = 5 * (1 - sqrt (1 - 1.96 * sqrt 2 / 3))"
  define u where "u = 5 * (sqrt (1 + 1.96 * sqrt 2 / 3) - 1)"
  have N: "9 \<le> length scenario_ref" by (simp add: scenario_ref_length)
  from scenario_B_C [OF N, of pearson] have run: "main pearson ?ref ?cols = Inr ?rows"
    unfolding shifted_def by auto
  have tB: "rmse ?ref ?ref = Inr (Fin 0, Fin 0, Fin 0)" by (rule rmse_self [OF N])
  have tC: "rmse (map Fin (shifted 5 scenario_ref)) ?ref = Inr (Fin 5, Fin l, Fin u)"
    using rmse_shift [OF N, of 5] unfolding shifted_def scenario_factor l_def u_def by simp
  have p: "pearson ?ref (map Fin (shifted 5 scenario_ref)) = Fin 1"
    by (simp add: shifted_def scenario_ref_def pearson_def covar_def arr_mean_def arr_sum_def
        fsub_def sqrt_sq_55_6)
  have ti: "rmse (?ds ! 0) ?ref = Inr (Fin 0, Fin 0, Fin 0)" using tB by simp
  have tj: "rmse (?ds ! 1) ?ref = Inr (Fin 5, Fin l, Fin u)" using tC by simp
  have r: "Fin 1 = pearson (?ds ! 0) (?ds ! 1)" using p by simp
  have i: "(0 :: nat) < 1" and j: "1 \<le> length ?cols" by simp_all
  have l0: "0 \<le> l" unfolding l_def using scenario_lower_pos by simp
  have l5: "l \<le> 5"
    using lower5_bounds(2) [OF N] unfolding scenario_factor l_def .
  have gt: "\<not> fgt (Fin 0) (Fin 5)" "fgt (Fin 5) (Fin 0)" by (simp_all add: fgt_def)
  have comp: "fsqrt (fsub (fadd (fsquare (Fin 0)) (fsquare (Fin l)))
                (fmul (fmul (fmul (Fin 2) (Fin 1)) (Fin 0)) (Fin l))) = Fin l"
    using l0 by (simp add: fsquare_def fsub_def not_less)
  have d: "fabs (fsub (Fin 0) (Fin 5)) = Fin 5" by (simp add: fsub_def)
  from pairwise_rule [OF run i j refl refl ti tj r] obtain row lower upper where
    row: "row \<in> set ?rows" "method_a row = (map fst ?cols @ [''null'']) ! 0"
      "method_b row = (map fst ?cols @ [''null'']) ! 1"
      "rmse_a row = Fin 0" "rmse_b row = Fin 5"
      "same row \<longleftrightarrow> flt (fabs (fsub (Fin 0) (Fin 5))) (comp_err row)" and
    lu: "\<not> fgt (Fin 0) (Fin 5) \<longrightarrow> lower = Fin l \<and> upper = Fin 0" and
    c: "comp_err row = fsqrt (fsub (fadd (fsquare upper) (fsquare lower))
                                (fmul (fmul (fmul (Fin 2) (Fin 1)) upper) lower))"
    by blast
  from lu gt have "lower = Fin l" "upper = Fin 0" by simp_all
  then have ce: "comp_err row = Fin l" using c comp by simp
  have v: "same row = False" using row(6) l5 unfolding ce d by simp
  have "method_a row = ''B''" "method_b row = ''C''" using row(2,3) by simp_all
  then have "\<exists>row\<in>set ?rows. method_a row = ''B'' \<and> method_b row = ''C''
       \<and> rmse_a row = Fin 0 \<and> rmse_b row = Fin 5 \<and> comp_err row = Fin l \<and> same row = False"
    using row(1,4,5) ce v by blast
  then show ?thesis using run tB tC p unfolding l_def u_def by blast
qed

text \<open>
  Claim C7, as amended. In a run of the driver that prints its table, a pair of methods
  whose correlation is NaN gets the compatible error NaN, and its \<open>same?\<close> column is the
  truth value \<open>False\<close>, since every comparison with NaN is false: the line is not marked
  as indeterminate.
\<close>

theorem nan_correlation_verdict:
  assumes run: "main corrcoef ref cols = Inr rows"
    and ij: "i < j" "j \<le> length cols"
    and methods: "methods = map fst cols @ [''null'']"
    and data: "method_data = map snd cols @ [map (\<lambda>_. arr_mean ref) ref]"
    and r: "corrcoef (method_data ! i) (method_data ! j) = NaN"
  shows "\<exists>row\<in>set rows.
           method_a row = methods ! i \<and> method_b row = methods ! j
         \<and> comp_err row = NaN \<and> same row = False"
proof -
  from main_row [OF run ij methods data] obtain acc where
    mem: "pair_row corrcoef methods method_data acc i j \<in> set rows"
    by blast
  let ?row = "pair_row corrcoef methods method_data acc i j"
  have names: "method_a ?row = methods ! i" "method_b ?row = methods ! j"
    by (simp_all add: pair_row_def Let_def)
  have comp: "comp_err ?row = NaN"
    by (simp add: pair_row_def Let_def r fsub_def fadd_NaN_right)
  have "same ?row = flt (fabs (fsub (rmse_list acc ! i) (rmse_list acc ! j))) (comp_err ?row)"
    by (simp add: pair_row_def Let_def)
  then have verdict: "same ?row = False" unfolding comp by (simp add: flt_NaN_right)
  from mem names comp verdict show ?thesis by blast
qed

theorem nan_correlation_verdict_witness:
  "main pearson (map Fin scenario_ref) [(''A'', map Fin (shifted 1 scenario_ref))]
     = Inr [\<lparr>method_a = ''A'', method_b = ''null'', rmse_a = Fin 1,
             rmse_b = Fin (sqrt (33 / 4)), rmse_a_minus_b = Fin (1 - sqrt (33 / 4)),
             comp_err = NaN, same = False\<rparr>]
   \<and> (0 :: nat) < 1 \<and> 1 \<le> length [(''A'', map Fin (shifted 1 scenario_ref))]
   \<and> pearson (map Fin (shifted 1 scenario_ref)) (map (\<lambda>_. Fin (11 / 2)) scenario_ref) = NaN
   \<and> (\<exists>row\<in>set [\<lparr>method_a = ''A'', method_b = ''null'', rmse_a = Fin 1,
             rmse_b = Fin (sqrt (33 / 4)), rmse_a_minus_b = Fin (1 - sqrt (33 / 4)),
             comp_err = NaN, same = False\<rparr>].
         method_a row = ''A'' \<and> method_b row = ''null''
       \<and> comp_err row = NaN \<and> same row = False)"
proof -
  let ?cols = "[(''A'', map Fin (shifted 1 scenario_ref))]"
  let ?ds = "map snd ?cols @ [map (\<lambda>_. arr_mean (map Fin scenario_ref)) (map Fin scenario_ref)]"
  have p: "pearson (map Fin (shifted 1 scenario_ref)) (map (\<lambda>_. Fin (11 / 2)) scenario_ref) = NaN"
    by (rule pearson_constant) (simp_all add: shifted_def scenario_ref_length)
  have r: "pearson (?ds ! 0) (?ds ! 1) = NaN"
    unfolding scenario_null using p by simp
  have i: "(0 :: nat) < 1" and j: "1 \<le> length ?cols" by simp_all
  from nan_correlation_verdict [OF scenario_A_null i j refl refl r]
  have "\<exists>row\<in>set [\<lparr>method_a = ''A'', method_b = ''null'', rmse_a = Fin 1,
             rmse_b = Fin (sqrt (33 / 4)), rmse_a_minus_b = Fin (1 - sqrt (33 / 4)),
             comp_err = NaN, same = False\<rparr>].
         method_a row = ''A'' \<and> method_b row = ''null''
       \<and> comp_err row = NaN \<and> same row = False"
    by simp
  then show ?thesis using scenario_A_null p by simp
qed

text \<open>
  The claim as stated fails. With the reference \<open>1, ..., 10\<close> and the one method
  \<open>A = reference + 1\<close>, the correlation of \<open>A\<close> with the constant null method is NaN and
  the only line of the table carries the truth value \<open>False\<close>. With a single point
  (\<open>N = 1\<close>) the driver does not reach the comparison: \<open>rmse\<close> returns no value and
  unpacking it raises \<open>TypeError\<close>.
\<close>

theorem nan_correlation_counterexample:
  "main pearson (map Fin scenario_ref) [(''A'', map Fin (shifted 1 scenario_ref))]
     = Inr [\<lparr>method_a = ''A'', method_b = ''null'', rmse_a = Fin 1,
             rmse_b = Fin (sqrt (33 / 4)), rmse_a_minus_b = Fin (1 - sqrt (33 / 4)),
             comp_err = NaN, same = False\<rparr>]
   \<and> main pearson [Fin 1] [(''A'', [Fin 2])] = Inl TypeError"
proof -
  have "main pearson [Fin 1] [(''A'', [Fin 2])] = Inl TypeError"
    by (simp add: main_def metrics_step_def rmse_def)
  then show ?thesis using scenario_A_null by simp
qed

text \<open>
  Claim C6, as amended. With a reference of ten points, \<open>B\<close> equal to the reference and
  \<open>C\<close> equal to the reference plus 5, the driver prints three lines, the first one for the
  pair \<open>(B, C)\<close> with the RMSE values 0 and 5, and the truth value it prints for that pair is
  \<open>False\<close>, whatever the correlation is: in the \<open>same?\<close> column, \<open>False\<close> says that the
  difference of 5 is not below the compatible error, that is, that it is significant.
\<close>

theorem verdict_B_C:
  assumes "length ref = 10"
  shows "\<exists>rows. main corrcoef (map Fin ref)
             [(''B'', map Fin ref), (''C'', map Fin (shifted 5 ref))] = Inr rows
           \<and> length rows = 3
           \<and> method_a (rows ! 0) = ''B'' \<and> method_b (rows ! 0) = ''C''
           \<and> rmse_a (rows ! 0) = Fin 0 \<and> rmse_b (rows ! 0) = Fin 5
           \<and> same (rows ! 0) = False"
proof -
  have "9 \<le> length ref" using assms by simp
  then show ?thesis unfolding shifted_def by (rule scenario_B_C)
qed

theorem verdict_B_C_witness:
  "length scenario_ref = 10
   \<and> (\<exists>rows. main pearson (map Fin scenario_ref)
             [(''B'', map Fin scenario_ref), (''C'', map Fin (shifted 5 scenario_ref))] = Inr rows
           \<and> length rows = 3
           \<and> method_a (rows ! 0) = ''B'' \<and> method_b (rows ! 0) = ''C''
           \<and> rmse_a (rows ! 0) = Fin 0 \<and> rmse_b (rows ! 0) = Fin 5
           \<and> same (rows ! 0) = False)"
  using verdict_B_C [OF scenario_ref_length, of pearson] scenario_ref_length by blast

text \<open>
  The claim as stated, that the truth value printed for \<open>(B, C)\<close> is \<open>True\<close>, fails on
  the reference \<open>1, ..., 10\<close>: the run succeeds and the first line, for \<open>B\<close> and \<open>C\<close>,
  carries \<open>False\<close>.
\<close>

theorem verdict_B_C_counterexample:
  "\<not> isl (main pearson (map Fin scenario_ref)
             [(''B'', map Fin scenario_ref), (''C'', map Fin (shifted 5 scenario_ref))])
   \<and> method_a (projr (main pearson (map Fin scenario_ref)
             [(''B'', map Fin scenario_ref), (''C'', map Fin (shifted 5 scenario_ref))]) ! 0) = ''B''
   \<and> method_b (projr (main pearson (map Fin scenario_ref)
             [(''B'', map Fin scenario_ref), (''C'', map Fin (shifted 5 scenario_ref))]) ! 0) = ''C''
   \<and> same (projr (main pearson (map Fin scenario_ref)
             [(''B'', map Fin scenario_ref), (''C'', map Fin (shifted 5 scenario_ref))]) ! 0) = False"
proof -
  have N: "9 \<le> length scenario_ref" by (simp add: scenario_ref_length)
  from scenario_B_C [OF N, of pearson] obtain rows where
    run: "main pearson (map Fin scenario_ref)
             [(''B'', map Fin scenario_ref), (''C'', map Fin (shifted 5 scenario_ref))] = Inr rows"
    and row: "method_a (rows ! 0) = ''B''" "method_b (rows ! 0) = ''C''" "same (rows ! 0) = False"
    unfolding shifted_def by blast
  show ?thesis unfolding run using row by simp
qed

text \<open>
  Claim C9, as amended. With the reference \<open>1, ..., 10\<close> and \<open>A = reference + 1\<close>,
  \<open>rmse\<close> and \<open>mae\<close> both return \<open>(1, le, ue)\<close> with
  \<open>le = 1 - sqrt(1 - 1.96*sqrt(2)/3)\<close> and \<open>ue = sqrt(1 + 1.96*sqrt(2)/3) - 1\<close>, both
  positive, and \<open>me\<close> returns \<open>(1, 0)\<close>.
\<close>

theorem scenario_A_measures:
  "rmse (map Fin (shifted 1 scenario_ref)) (map Fin scenario_ref)
     = Inr (Fin 1, Fin (1 - sqrt (1 - 1.96 * sqrt 2 / 3)),
            Fin (sqrt (1 + 1.96 * sqrt 2 / 3) - 1))
   \<and> mae (map Fin (shifted 1 scenario_ref)) (map Fin scenario_ref)
     = Inr (Fin 1, Fin (1 - sqrt (1 - 1.96 * sqrt 2 / 3)),
            Fin (sqrt (1 + 1.96 * sqrt 2 / 3) - 1))
   \<and> me (map Fin (shifted 1 scenario_ref)) (map Fin scenario_ref) = Inr (Fin 1, Fin 0)
   \<and> 0 < 1 - sqrt (1 - 1.96 * sqrt 2 / 3)
   \<and> 0 < sqrt (1 + 1.96 * sqrt 2 / 3) - 1"
proof -
  have N: "9 \<le> length scenario_ref" and N1: "1 \<le> length scenario_ref"
    by (simp_all add: scenario_ref_length)
  have r: "rmse (map Fin (shifted 1 scenario_ref)) (map Fin scenario_ref)
     = Inr (Fin 1, Fin (1 - sqrt (1 - 1.96 * sqrt 2 / 3)),
            Fin (sqrt (1 + 1.96 * sqrt 2 / 3) - 1))"
    using rmse_shift [OF N, of 1] unfolding shifted_def scenario_factor by simp
  have a: "mae (map Fin (shifted 1 scenario_ref)) (map Fin scenario_ref)
     = Inr (Fin 1, Fin (1 - sqrt (1 - 1.96 * sqrt 2 / 3)),
            Fin (sqrt (1 + 1.96 * sqrt 2 / 3) - 1))"
    using mae_shift [OF N, of 1] unfolding shifted_def scenario_factor by simp
  have m: "me (map Fin (shifted 1 scenario_ref)) (map Fin scenario_ref) = Inr (Fin 1, Fin 0)"
    using me_shift [OF N1, of 1] unfolding shifted_def .
  show ?thesis using r a m scenario_lower_pos scenario_upper_pos by blast
qed

text \<open>
  The claim as stated fails: the lower errors of \<open>rmse\<close> and \<open>mae\<close> are not 0, and
  the half-width that \<open>me\<close> returns is 0, not a positive number.
\<close>

theorem scenario_A_counterexample:
  "fst (snd (projr (rmse (map Fin (shifted 1 scenario_ref)) (map Fin scenario_ref)))) \<noteq> Fin 0
   \<and> fst (snd (projr (mae (map Fin (shifted 1 scenario_ref)) (map Fin scenario_ref)))) \<noteq> Fin 0
   \<and> snd (projr (me (map Fin (shifted 1 scenario_ref)) (map Fin scenario_ref))) = Fin 0"
proof -
  have N: "9 \<le> length scenario_ref" and N1: "1 \<le> length scenario_ref"
    by (simp_all add: scenario_ref_length)
  have nz: "1 - sqrt (1 - 1.96 * sqrt 2 / 3) \<noteq> 0" using scenario_lower_pos by simp
  have r: "fst (snd (projr (rmse (map Fin (shifted 1 scenario_ref)) (map Fin scenario_ref))))
     = Fin (1 - sqrt (1 - 1.96 * sqrt 2 / 3))"
    using rmse_shift [OF N, of 1] unfolding shifted_def scenario_factor by simp
  have a: "fst (snd (projr (mae (map Fin (shifted 1 scenario_ref)) (map Fin scenario_ref))))
     = Fin (1 - sqrt (1 - 1.96 * sqrt 2 / 3))"
    using mae_shift [OF N, of 1] unfolding shifted_def scenario_factor by simp
  have m: "snd (projr (me (map Fin (shifted 1 scenario_ref)) (map Fin scenario_ref))) = Fin 0"
    using me_shift [OF N1, of 1] unfolding shifted_def by simp
  show ?thesis unfolding r a m using nz by simp
qed

end
